theory Spec2Isabelle
  imports Main "HOL-Library.AList" "HOL-Library.Sublist"
begin

section \<open>Python values used by the moderation workflow\<close>

text \<open>
  A Python \<^verbatim>\<open>str\<close> is a sequence of Unicode code points and \<^verbatim>\<open>len\<close> counts code
  points, so a string is a list of code points (natural numbers). \<open>ustr\<close> reads an
  ASCII literal of the source as such a string.
\<close>

type_synonym pystr = "nat list"

definition ustr :: "string \<Rightarrow> pystr" where
  "ustr s = map of_char s"

text \<open>
  The code points for which \<^verbatim>\<open>str.isspace\<close> holds; \<^verbatim>\<open>str.strip()\<close> and
  \<^verbatim>\<open>str.split()\<close> without arguments use the same set.
\<close>

definition py_isspace :: "nat \<Rightarrow> bool" where
  "py_isspace c \<longleftrightarrow>
     (9 \<le> c \<and> c \<le> 13) \<or> (28 \<le> c \<and> c \<le> 32) \<or> c = 133 \<or> c = 160 \<or> c = 5760 \<or>
     (8192 \<le> c \<and> c \<le> 8202) \<or> c = 8232 \<or> c = 8233 \<or> c = 8239 \<or> c = 8287 \<or> c = 12288"

text \<open>\<^verbatim>\<open>s.strip()\<close>: whitespace removed from both ends.\<close>

definition py_strip :: "pystr \<Rightarrow> pystr" where
  "py_strip s = rev (dropWhile py_isspace (rev (dropWhile py_isspace s)))"

text \<open>
  \<^verbatim>\<open>s.split()\<close>: the scan of the interpreter, with the token being read in \<open>cur\<close>.
  A whitespace code point closes the current token if there is one; the end of the
  string closes the last token.
\<close>

fun split_scan :: "pystr \<Rightarrow> pystr \<Rightarrow> pystr list" where
  "split_scan cur [] = (if cur = [] then [] else [cur])"
| "split_scan cur (c # cs) =
     (if py_isspace c then (if cur = [] then split_scan [] cs else cur # split_scan [] cs)
      else split_scan (cur @ [c]) cs)"

definition py_split :: "pystr \<Rightarrow> pystr list" where
  "py_split s = split_scan [] s"

text \<open>\<^verbatim>\<open>sub in s\<close> on strings: \<open>sub\<close> occurs as a contiguous run of \<open>s\<close>.\<close>

definition py_in :: "pystr \<Rightarrow> pystr \<Rightarrow> bool" where
  "py_in sub s = sublist sub s"

text \<open>\<^verbatim>\<open>sep.join(xs)\<close>.\<close>

fun py_join :: "pystr \<Rightarrow> pystr list \<Rightarrow> pystr" where
  "py_join sep [] = []"
| "py_join sep [x] = x"
| "py_join sep (x # y # ys) = x @ sep @ py_join sep (y # ys)"

text \<open>
  The values a metadata dictionary holds here: integers, booleans and strings.
  A dictionary is an association list in insertion order with distinct keys.
\<close>

datatype pyval = PyInt int | PyBool bool | PyStr pystr

type_synonym pydict = "(pystr \<times> pyval) list"

function dec_digits :: "nat \<Rightarrow> pystr" where
  "dec_digits n = (if n < 10 then [48 + n] else dec_digits (n div 10) @ [48 + n mod 10])"
  by pat_completeness auto
termination
  by (relation "measure id") auto

text \<open>\<^verbatim>\<open>str(v)\<close>, as an f-string renders a value.\<close>

fun py_str :: "pyval \<Rightarrow> pystr" where
  "py_str (PyInt i) = (if i < 0 then 45 # dec_digits (nat (- i)) else dec_digits (nat i))"
| "py_str (PyBool b) = (if b then ustr ''True'' else ustr ''False'')"
| "py_str (PyStr s) = s"

text \<open>
  \<^verbatim>\<open>{**a, **b}\<close>: the items of \<open>a\<close> in order, then each item of \<open>b\<close> in order, an
  existing key keeping its place and taking the new value, a new key going last.
\<close>

definition dict_merge :: "pydict \<Rightarrow> pydict \<Rightarrow> pydict" where
  "dict_merge a b = fold (\<lambda>(k, v). AList.update k v) b a"

section \<open>The state dictionary\<close>

text \<open>
  \<^verbatim>\<open>ModerationState\<close> is a \<^verbatim>\<open>TypedDict\<close>: a dictionary in which each of the five keys
  may be missing, and a key that is there holds a value of its declared type or
  \<^verbatim>\<open>None\<close>. \<open>Absent\<close> is a missing key, \<open>Bound None\<close> a key holding \<^verbatim>\<open>None\<close>.
\<close>

datatype 'a slot = Absent | Bound "'a option"

record ModerationState =
  content :: "pystr slot"
  severity :: "pystr slot"
  action :: "pystr slot"
  explanation :: "pystr slot"
  metadata :: "pydict slot"

definition no_keys :: ModerationState where
  "no_keys = \<lparr>content = Absent, severity = Absent, action = Absent,
              explanation = Absent, metadata = Absent\<rparr>"

datatype py_exn =
    KeyError pystr
  | ValidationError pystr
  | CapabilityError pystr
  | GraphRecursionError

text \<open>\<^verbatim>\<open>state[key]\<close> raises \<^verbatim>\<open>KeyError\<close> on a missing key.\<close>

definition subscript :: "string \<Rightarrow> 'a slot \<Rightarrow> py_exn + 'a option" where
  "subscript key sl = (case sl of Absent \<Rightarrow> Inl (KeyError (ustr key)) | Bound v \<Rightarrow> Inr v)"

text \<open>\<^verbatim>\<open>state.get(key, default)\<close> gives the default on a missing key only.\<close>

definition get_default :: "'a slot \<Rightarrow> 'a option \<Rightarrow> 'a option" where
  "get_default sl d = (case sl of Absent \<Rightarrow> d | Bound v \<Rightarrow> v)"

text \<open>How an f-string renders an optional string: \<^verbatim>\<open>None\<close> prints as its name.\<close>

definition fmt :: "pystr option \<Rightarrow> pystr" where
  "fmt v = (case v of None \<Rightarrow> ustr ''None'' | Some s \<Rightarrow> s)"

text \<open>
  A node returns a dictionary holding only the keys it sets; the graph writes each
  returned key over the state's value and leaves the other keys as they were.
\<close>

definition write_channel :: "'a slot \<Rightarrow> 'a slot \<Rightarrow> 'a slot" where
  "write_channel old new = (case new of Absent \<Rightarrow> old | Bound v \<Rightarrow> Bound v)"

definition apply_update :: "ModerationState \<Rightarrow> ModerationState \<Rightarrow> ModerationState" where
  "apply_update s u =
     \<lparr>content = write_channel (content s) (content u),
      severity = write_channel (severity s) (severity u),
      action = write_channel (action s) (action u),
      explanation = write_channel (explanation s) (explanation u),
      metadata = write_channel (metadata s) (metadata u)\<rparr>"

section \<open>The nodes of main.py\<close>

text \<open>
  Every node takes the state and returns the dictionary of the keys it sets, or
  raises. A raise is the left summand.
\<close>

subsection \<open>analyse_content\<close>

text \<open>
  Lines 31 to 46. \<^verbatim>\<open>not content\<close> holds for \<^verbatim>\<open>None\<close> and for the empty string, so a
  content of \<^verbatim>\<open>None\<close> takes the early return without reaching \<^verbatim>\<open>strip\<close>.
\<close>

definition analyse_content :: "ModerationState \<Rightarrow> py_exn + ModerationState" where
  "analyse_content state =
     (case subscript ''content'' (content state) of
        Inl e \<Rightarrow> Inl e
      | Inr None \<Rightarrow>
          Inr (no_keys\<lparr>metadata :=
                 Bound (Some [(ustr ''error'', PyStr (ustr ''Content is empty''))])\<rparr>)
      | Inr (Some c) \<Rightarrow>
          if c = [] \<or> length (py_strip c) = 0 then
            Inr (no_keys\<lparr>metadata :=
                   Bound (Some [(ustr ''error'', PyStr (ustr ''Content is empty''))])\<rparr>)
          else
            let analysis_metadata =
                  [(ustr ''content_length'', PyInt (int (length c))),
                   (ustr ''word_count'', PyInt (int (length (py_split c)))),
                   (ustr ''has_urls'',
                      PyBool (list_ex (\<lambda>url. py_in url c) [ustr ''http://'', ustr ''https://'']))]
            in Inr (no_keys\<lparr>metadata :=
                      Bound (Some (dict_merge
                        (case get_default (metadata state) None of
                           None \<Rightarrow> [] | Some d \<Rightarrow> if d = [] then [] else d)
                        analysis_metadata))\<rparr>))"

subsection \<open>routing_decision\<close>

text \<open>
  Lines 95 to 105. The comparisons are string equalities, false for \<^verbatim>\<open>None\<close>; the
  last branch returns the string of line 105.
\<close>

definition routing_decision :: "ModerationState \<Rightarrow> py_exn + pystr" where
  "routing_decision state =
     (case subscript ''severity'' (severity state) of
        Inl e \<Rightarrow> Inl e
      | Inr sev \<Rightarrow>
          if sev = Some (ustr ''safe'') then Inr (ustr ''approve'')
          else if sev = Some (ustr ''questionable'') then Inr (ustr ''flag'')
          else if sev = Some (ustr ''inappropriate'') then Inr (ustr ''reject'')
          else if sev = Some (ustr ''harmful'') then Inr (ustr ''escalate'')
          else Inr (ustr ''safe''))"

subsection \<open>classify_severity\<close>

text \<open>
  The language model is the only outside dependency. It is a parameter: given the
  state of the outside world and the two inputs of \<^verbatim>\<open>chain.invoke\<close> (the content and
  the rendered metadata), it either raises or answers with a severity text and an
  explanation text, and leaves a new state of the outside world. The answer is then
  parsed into \<^verbatim>\<open>SeverityClassification\<close>, whose \<open>severity\<close> field admits the four
  labels only.
\<close>

type_synonym 'w capability =
  "'w \<Rightarrow> pystr option \<Rightarrow> pystr \<Rightarrow> (py_exn + pystr \<times> pystr) \<times> 'w"

definition severity_labels :: "pystr list" where
  "severity_labels =
     [ustr ''safe'', ustr ''questionable'', ustr ''inappropriate'', ustr ''harmful'']"

definition SeverityClassification :: "pystr \<Rightarrow> pystr \<Rightarrow> py_exn + pystr \<times> pystr" where
  "SeverityClassification sev expl =
     (if sev \<in> set severity_labels then Inr (sev, expl) else Inl (ValidationError sev))"

text \<open>Lines 53 to 56: the metadata listing handed to the chain.\<close>

definition metadata_str :: "ModerationState \<Rightarrow> pystr" where
  "metadata_str state =
     (case get_default (metadata state) (Some []) of
        None \<Rightarrow> ustr ''No metadata available''
      | Some d \<Rightarrow>
          if d = [] then ustr ''No metadata available''
          else py_join [10] (map (\<lambda>(k, v). ustr ''- '' @ k @ ustr '': '' @ py_str v) d))"

definition classify_severity ::
  "'w capability \<Rightarrow> 'w \<Rightarrow> ModerationState \<Rightarrow> (py_exn + ModerationState) \<times> 'w" where
  "classify_severity model w state =
     (case subscript ''content'' (content state) of
        Inl e \<Rightarrow> (Inl e, w)
      | Inr c \<Rightarrow>
          case model w c (metadata_str state) of
               (Inl e, w') \<Rightarrow> (Inl e, w')
             | (Inr (sev, expl), w') \<Rightarrow>
                 (case SeverityClassification sev expl of
                    Inl e \<Rightarrow> (Inl e, w')
                  | Inr response \<Rightarrow>
                      (Inr (no_keys\<lparr>severity := Bound (Some (fst response)),
                                    explanation := Bound (Some (snd response))\<rparr>), w')))"

subsection \<open>The four action nodes\<close>

text \<open>The fixed text of each f-string, before and after the embedded explanation.\<close>

definition approve_head :: pystr where
  "approve_head =
     9989 # ustr '' Your content has been approved and is safe to publish. No changes needed.''
       @ [10, 10] @ ustr ''Analysis: ''"

definition flag_head :: pystr where
  "flag_head =
     [9888, 65039] @ ustr '' Your content was classified as questionable.''
       @ [10, 10] @ ustr ''Reason: ''"

definition flag_tail :: pystr where
  "flag_tail =
     [10, 10] @ ustr ''Please review and revise your content to make it more appropriate before resubmitting.''"

definition reject_head :: pystr where
  "reject_head =
     10060 # ustr '' Your content was classified as inappropriate.''
       @ [10, 10] @ ustr ''Reason: ''"

definition reject_tail :: pystr where
  "reject_tail =
     [10, 10] @ ustr ''It contains content that violates our guidelines and cannot be published. Please revise your content to make it more appropriate before resubmitting.''"

definition escalate_head :: pystr where
  "escalate_head =
     128680 # ustr '' Your content was classified as harmful.''
       @ [10, 10] @ ustr ''Reason: ''"

definition escalate_tail :: pystr where
  "escalate_tail =
     [10, 10] @ ustr ''This content contains material that is dangerous, illegal, or severely violates our guidelines. This submission has been escalated for review. Please revise your content to remove any harmful material. If you believe this is an error, please contact support.''"

definition approve :: "ModerationState \<Rightarrow> ModerationState" where
  "approve state =
     (let original_explanation = get_default (explanation state) (Some [])
      in no_keys\<lparr>action := Bound (Some (ustr ''approve'')),
                 explanation := Bound (Some (approve_head @ fmt original_explanation))\<rparr>)"

definition flag :: "ModerationState \<Rightarrow> ModerationState" where
  "flag state =
     (let original_explanation = get_default (explanation state) (Some [])
      in no_keys\<lparr>action := Bound (Some (ustr ''flag'')),
                 explanation :=
                   Bound (Some (flag_head @ fmt original_explanation @ flag_tail))\<rparr>)"

definition reject :: "ModerationState \<Rightarrow> ModerationState" where
  "reject state =
     (let original_explanation = get_default (explanation state) (Some [])
      in no_keys\<lparr>action := Bound (Some (ustr ''reject'')),
                 explanation :=
                   Bound (Some (reject_head @ fmt original_explanation @ reject_tail))\<rparr>)"

definition escalate :: "ModerationState \<Rightarrow> ModerationState" where
  "escalate state =
     (let original_explanation = get_default (explanation state) (Some [])
      in no_keys\<lparr>action := Bound (Some (ustr ''escalate'')),
                 explanation :=
                   Bound (Some (escalate_head @ fmt original_explanation @ escalate_tail))\<rparr>)"

section \<open>The graph and its execution\<close>

text \<open>
  The graph as main.py builds it: the node table, the fixed edges and the one
  conditional edge, whose router result is looked up in the path map.
\<close>

type_synonym 'w node = "'w \<Rightarrow> ModerationState \<Rightarrow> (py_exn + ModerationState) \<times> 'w"

definition START :: pystr where
  "START = ustr ''__start__''"

definition END :: pystr where
  "END = ustr ''__end__''"

text \<open>A node that neither reads nor changes the outside world.\<close>

definition plain :: "(ModerationState \<Rightarrow> py_exn + ModerationState) \<Rightarrow> 'w node" where
  "plain f w state = (f state, w)"

definition graph_nodes :: "'w capability \<Rightarrow> (pystr \<times> 'w node) list" where
  "graph_nodes model =
     [(ustr ''analyse_content'', plain analyse_content),
      (ustr ''classify_severity'', classify_severity model),
      (ustr ''approve'', plain (\<lambda>state. Inr (approve state))),
      (ustr ''flag'', plain (\<lambda>state. Inr (flag state))),
      (ustr ''reject'', plain (\<lambda>state. Inr (reject state))),
      (ustr ''escalate'', plain (\<lambda>state. Inr (escalate state)))]"

definition graph_edges :: "(pystr \<times> pystr) list" where
  "graph_edges =
     [(START, ustr ''analyse_content''),
      (ustr ''analyse_content'', ustr ''classify_severity''),
      (ustr ''approve'', END),
      (ustr ''flag'', END),
      (ustr ''reject'', END),
      (ustr ''escalate'', END)]"

definition path_map :: "(pystr \<times> pystr) list" where
  "path_map =
     [(ustr ''approve'', ustr ''approve''),
      (ustr ''flag'', ustr ''flag''),
      (ustr ''reject'', ustr ''reject''),
      (ustr ''escalate'', ustr ''escalate'')]"

definition graph_conditional_edges ::
  "(pystr \<times> (ModerationState \<Rightarrow> py_exn + pystr) \<times> (pystr \<times> pystr) list) list" where
  "graph_conditional_edges = [(ustr ''classify_severity'', routing_decision, path_map)]"

text \<open>
  What ran, in order: a node, or the router with its result. The trace is kept for
  the statements about the order of stages; the caller does not see it.
\<close>

datatype event = Ran pystr | Routed pystr

text \<open>
  One run of the compiled graph from a node: the node's function runs on the state,
  its result is written into the state, and the edge leaving the node gives the next
  node, through the router and the path map where the edge is conditional. An
  exception ends the run. The first argument is the step limit of the graph runtime.
\<close>

fun run_from ::
  "nat \<Rightarrow> 'w capability \<Rightarrow> pystr \<Rightarrow> 'w \<Rightarrow> ModerationState \<Rightarrow> event list
     \<Rightarrow> (event list \<times> (py_exn + ModerationState)) \<times> 'w" where
  "run_from 0 model node w state tr = ((tr, Inl GraphRecursionError), w)"
| "run_from (Suc n) model node w state tr =
     (if node = END then ((tr, Inr state), w)
      else case map_of (graph_nodes model) node of
        None \<Rightarrow> ((tr, Inl (KeyError node)), w)
      | Some f \<Rightarrow>
          (case f w state of
             (Inl e, w') \<Rightarrow> ((tr @ [Ran node], Inl e), w')
           | (Inr u, w') \<Rightarrow>
               (let state' = apply_update state u; tr' = tr @ [Ran node]
                in case map_of graph_conditional_edges node of
                     Some (route, ends) \<Rightarrow>
                       (case route state' of
                          Inl e \<Rightarrow> ((tr', Inl e), w')
                        | Inr r \<Rightarrow>
                            (case map_of ends r of
                               None \<Rightarrow> ((tr' @ [Routed r], Inl (KeyError r)), w')
                             | Some nxt \<Rightarrow> run_from n model nxt w' state' (tr' @ [Routed r])))
                   | None \<Rightarrow>
                       (case map_of graph_edges node of
                          None \<Rightarrow> ((tr', Inr state'), w')
                        | Some nxt \<Rightarrow> run_from n model nxt w' state' tr'))))"

definition recursion_limit :: nat where
  "recursion_limit = 25"

text \<open>\<^verbatim>\<open>builder.invoke(input)\<close>, with the trace.\<close>

definition builder_run ::
  "'w capability \<Rightarrow> 'w \<Rightarrow> ModerationState \<Rightarrow> (event list \<times> (py_exn + ModerationState)) \<times> 'w" where
  "builder_run model w input =
     (case map_of graph_edges START of
        None \<Rightarrow> (([], Inr (apply_update no_keys input)), w)
      | Some first \<Rightarrow> run_from recursion_limit model first w (apply_update no_keys input) [])"

definition builder_invoke ::
  "'w capability \<Rightarrow> 'w \<Rightarrow> ModerationState \<Rightarrow> (py_exn + ModerationState) \<times> 'w" where
  "builder_invoke model w input =
     (case builder_run model w input of ((tr, r), w') \<Rightarrow> (r, w'))"

section \<open>run_moderation of app.py\<close>

text \<open>
  The result dictionary is the final state, or a dictionary with the single key
  \<open>error\<close>. \<open>str_e\<close> is what \<^verbatim>\<open>str(e)\<close> gives for an exception.
\<close>

record run_result = ModerationState +
  error :: "pystr slot"

definition run_moderation ::
  "(py_exn \<Rightarrow> pystr) \<Rightarrow> 'w capability \<Rightarrow> 'w \<Rightarrow> pystr \<Rightarrow> run_result \<times> 'w" where
  "run_moderation str_e model w c =
     (case builder_invoke model w (no_keys\<lparr>content := Bound (Some c)\<rparr>) of
        (Inr result, w') \<Rightarrow> (ModerationState.extend result (run_result.fields Absent), w')
      | (Inl e, w') \<Rightarrow>
          (ModerationState.extend no_keys (run_result.fields (Bound (Some (str_e e)))), w'))"

section \<open>Notions used to state the properties\<close>

text \<open>
  The number of whitespace-delimited tokens of a string, counted without reference to
  the scan: a token starts at every position that holds a non-whitespace code point
  and is the first position or follows a whitespace code point.
\<close>

definition token_count :: "pystr \<Rightarrow> nat" where
  "token_count s =
     length (filter (\<lambda>i. \<not> py_isspace (s ! i) \<and> (i = 0 \<or> py_isspace (s ! (i - 1))))
                    [0..<length s])"

text \<open>
  The same count as a recursion over the string; \<open>b\<close> tells whether the position
  before the string counts as whitespace.
\<close>

fun token_starts :: "bool \<Rightarrow> pystr \<Rightarrow> nat" where
  "token_starts b [] = 0"
| "token_starts b (c # cs) =
     (if \<not> py_isspace c \<and> b then 1 else 0) + token_starts (py_isspace c) cs"

text \<open>
  The metadata a state carries into a node, as \<^verbatim>\<open>state.get("metadata") or {}\<close> reads it:
  empty when the key is missing or holds \<^verbatim>\<open>None\<close>.
\<close>

definition prior_metadata :: "ModerationState \<Rightarrow> pydict" where
  "prior_metadata state = (case metadata state of Bound (Some d) \<Rightarrow> d | _ \<Rightarrow> [])"

text \<open>The input dictionary that \<^verbatim>\<open>run_moderation\<close> hands to the graph.\<close>

definition submitted :: "pystr \<Rightarrow> ModerationState" where
  "submitted c = no_keys\<lparr>content := Bound (Some c)\<rparr>"

text \<open>The state the preprocessor leaves for the classifier on submitted content.\<close>

definition analysed :: "pystr \<Rightarrow> ModerationState" where
  "analysed c =
     (case analyse_content (submitted c) of
        Inr u \<Rightarrow> apply_update (submitted c) u
      | Inl e \<Rightarrow> submitted c)"

text \<open>
  The rows severity, action, text before the rationale, text after the rationale:
  the table of the router joined with the fixed text of the four action nodes.
\<close>

definition outcomes :: "(pystr \<times> pystr \<times> pystr \<times> pystr) list" where
  "outcomes =
     [(ustr ''safe'', ustr ''approve'', approve_head, []),
      (ustr ''questionable'', ustr ''flag'', flag_head, flag_tail),
      (ustr ''inappropriate'', ustr ''reject'', reject_head, reject_tail),
      (ustr ''harmful'', ustr ''escalate'', escalate_head, escalate_tail)]"

text \<open>
  Language models used as examples. The outside world is a call counter: one model
  always gives the same answer, one always raises, one answers by the parity of the
  number of calls made so far.
\<close>

definition answering :: "pystr \<Rightarrow> pystr \<Rightarrow> nat capability" where
  "answering sev expl w c m = (Inr (sev, expl), Suc w)"

definition raising :: "py_exn \<Rightarrow> nat capability" where
  "raising e w c m = (Inl e, Suc w)"

definition alternating :: "nat capability" where
  "alternating w c m =
     (Inr (if even w then ustr ''safe'' else ustr ''harmful'', ustr ''seen''), Suc w)"

text \<open>An example of the text of an exception.\<close>

fun exn_text :: "py_exn \<Rightarrow> pystr" where
  "exn_text (KeyError k) = [39] @ k @ [39]"
| "exn_text (ValidationError v) = ustr ''validation error: '' @ v"
| "exn_text (CapabilityError m) = m"
| "exn_text GraphRecursionError = ustr ''recursion limit reached''"

section \<open>Strings, dictionaries and tokens\<close>

lemma ustr_eq_iff [simp]: "ustr a = ustr b \<longleftrightarrow> a = b"
  by (simp add: ustr_def inj_map_eq_map[OF inj_of_char])

lemma ustr_Nil_iff [simp]: "ustr a = [] \<longleftrightarrow> a = []"
  by (simp add: ustr_def)

lemma strip_Nil_iff: "py_strip c = [] \<longleftrightarrow> (\<forall>x\<in>set c. py_isspace x)"
proof
  assume e: "py_strip c = []"
  let ?d = "dropWhile py_isspace c"
  from e have all: "\<forall>x\<in>set ?d. py_isspace x"
    by (simp add: py_strip_def dropWhile_eq_Nil_conv)
  have "?d = []"
  proof (rule ccontr)
    assume ne: "?d \<noteq> []"
    then have "\<not> py_isspace (hd ?d)" by (rule hd_dropWhile)
    moreover from ne have "hd ?d \<in> set ?d" by simp
    ultimately show False using all by blast
  qed
  then show "\<forall>x\<in>set c. py_isspace x"
    by (simp add: dropWhile_eq_Nil_conv)
next
  assume "\<forall>x\<in>set c. py_isspace x"
  then show "py_strip c = []"
    by (auto simp add: py_strip_def dest: set_dropWhileD)
qed

lemma blank_iff: "(c = [] \<or> length (py_strip c) = 0) \<longleftrightarrow> (\<forall>x\<in>set c. py_isspace x)"
  by (auto simp add: strip_Nil_iff)

lemma map_of_fold_update:
  "distinct (map fst b) \<Longrightarrow>
   map_of (fold (\<lambda>(k, v). AList.update k v) b a) = map_of a ++ map_of b"
proof (induction b arbitrary: a)
  case Nil
  then show ?case by simp
next
  case (Cons p b)
  obtain k v where p: "p = (k, v)" by (cases p)
  from Cons.prems p have nk: "k \<notin> fst ` set b" and db: "distinct (map fst b)" by auto
  have "map_of (fold (\<lambda>(k, v). AList.update k v) (p # b) a)
        = map_of (AList.update k v a) ++ map_of b"
    using Cons.IH [OF db] p by simp
  also have "\<dots> = (map_of a)(k \<mapsto> v) ++ map_of b"
    by (simp add: update_conv')
  also have "\<dots> = (map_of a ++ map_of b)(k \<mapsto> v)"
    using nk by (simp add: map_add_upd_left dom_map_of_conv_image_fst)
  also have "\<dots> = map_of a ++ map_of (p # b)"
    using p by simp
  finally show ?case .
qed

lemma map_of_dict_merge:
  "distinct (map fst b) \<Longrightarrow> map_of (dict_merge a b) = map_of a ++ map_of b"
  by (simp add: dict_merge_def map_of_fold_update)

lemma length_split_scan:
  "length (split_scan cur s) =
     (if cur = [] then token_starts True s else Suc (token_starts False s))"
  by (induction s arbitrary: cur) auto

lemma token_starts_index:
  "token_starts b s =
     length (filter (\<lambda>i. \<not> py_isspace (s ! i) \<and> (if i = 0 then b else py_isspace (s ! (i - 1))))
                    [0..<length s])"
proof (induction s arbitrary: b)
  case Nil
  then show ?case by simp
next
  case (Cons c cs)
  have upt: "[0..<length (c # cs)] = 0 # map Suc [0..<length cs]"
    by (simp add: upt_conv_Cons map_Suc_upt del: upt_Suc)
  have tl: "filter (\<lambda>i. \<not> py_isspace ((c # cs) ! i) \<and>
                 (if i = 0 then b else py_isspace ((c # cs) ! (i - 1)))) (map Suc [0..<length cs])
            = map Suc (filter (\<lambda>i. \<not> py_isspace (cs ! i) \<and>
                 (if i = 0 then py_isspace c else py_isspace (cs ! (i - 1)))) [0..<length cs])"
    unfolding filter_map
    by (rule arg_cong [where f = "map Suc"], rule filter_cong) (auto simp add: nth_Cons')
  show ?case
    unfolding upt using Cons.IH [of "py_isspace c"] by (simp add: tl)
qed

lemma word_count_tokens: "length (py_split s) = token_count s"
proof -
  have "length (py_split s) = token_starts True s"
    by (simp add: py_split_def length_split_scan)
  also have "\<dots> = token_count s"
    unfolding token_count_def token_starts_index
    by (rule arg_cong [where f = length], rule filter_cong) auto
  finally show ?thesis .
qed

section \<open>The router\<close>

text \<open>
  C1. For each of the four severities the router returns the action of the same row:
  safe gives approve, questionable gives flag, inappropriate gives reject, harmful
  gives escalate. The router is a function of the state, so the result is the only
  one possible, and each of the four results is a key of the path map of the
  conditional edge, leading to the node of the same name.
\<close>

theorem routing_decision_labels:
  "(severity state = Bound (Some (ustr ''safe'')) \<longrightarrow>
      routing_decision state = Inr (ustr ''approve'')) \<and>
   (severity state = Bound (Some (ustr ''questionable'')) \<longrightarrow>
      routing_decision state = Inr (ustr ''flag'')) \<and>
   (severity state = Bound (Some (ustr ''inappropriate'')) \<longrightarrow>
      routing_decision state = Inr (ustr ''reject'')) \<and>
   (severity state = Bound (Some (ustr ''harmful'')) \<longrightarrow>
      routing_decision state = Inr (ustr ''escalate'')) \<and>
   map_of path_map (ustr ''approve'') = Some (ustr ''approve'') \<and>
   map_of path_map (ustr ''flag'') = Some (ustr ''flag'') \<and>
   map_of path_map (ustr ''reject'') = Some (ustr ''reject'') \<and>
   map_of path_map (ustr ''escalate'') = Some (ustr ''escalate'')"
  by (simp add: routing_decision_def subscript_def path_map_def)

theorem routing_decision_labels_witness:
  "routing_decision (no_keys\<lparr>severity := Bound (Some (ustr ''safe''))\<rparr>) = Inr (ustr ''approve'') \<and>
   routing_decision (no_keys\<lparr>severity := Bound (Some (ustr ''questionable''))\<rparr>) = Inr (ustr ''flag'') \<and>
   routing_decision (no_keys\<lparr>severity := Bound (Some (ustr ''inappropriate''))\<rparr>) = Inr (ustr ''reject'') \<and>
   routing_decision (no_keys\<lparr>severity := Bound (Some (ustr ''harmful''))\<rparr>) = Inr (ustr ''escalate'')"
  using routing_decision_labels [of "no_keys\<lparr>severity := Bound (Some (ustr ''safe''))\<rparr>"]
        routing_decision_labels [of "no_keys\<lparr>severity := Bound (Some (ustr ''questionable''))\<rparr>"]
        routing_decision_labels [of "no_keys\<lparr>severity := Bound (Some (ustr ''inappropriate''))\<rparr>"]
        routing_decision_labels [of "no_keys\<lparr>severity := Bound (Some (ustr ''harmful''))\<rparr>"]
  by simp

text \<open>
  C2. The documented fallback is "approve". On a state whose severity is \<^verbatim>\<open>None\<close> the
  default branch of the router returns "safe" instead, which is not an action and not
  a key of the path map; on a state without the key the subscript raises
  \<^verbatim>\<open>KeyError\<close>.
\<close>

theorem routing_decision_fallback:
  "routing_decision (no_keys\<lparr>content := Bound (Some (ustr ''hello'')), severity := Bound None\<rparr>)
     = Inr (ustr ''safe'') \<and>
   ustr ''safe'' \<noteq> ustr ''approve'' \<and>
   map_of path_map (ustr ''safe'') = None \<and>
   routing_decision (no_keys\<lparr>content := Bound (Some (ustr ''hello''))\<rparr>)
     = Inl (KeyError (ustr ''severity''))"
  by (simp add: routing_decision_def subscript_def path_map_def no_keys_def)

section \<open>The preprocessor\<close>

text \<open>
  C3. When the content is empty or holds whitespace only, the preprocessor returns the
  single key metadata bound to exactly the dictionary with the one entry
  error = "Content is empty". Written into the state it replaces whatever metadata
  was there; no length, word count or URL flag is in it. The result is the same one
  that the empty string gives.
\<close>

theorem analyse_content_blank:
  assumes "content state = Bound (Some c)" and "\<forall>x\<in>set c. py_isspace x"
  shows "analyse_content state =
           Inr (no_keys\<lparr>metadata :=
                  Bound (Some [(ustr ''error'', PyStr (ustr ''Content is empty''))])\<rparr>) \<and>
         metadata (apply_update state
                     (no_keys\<lparr>metadata :=
                        Bound (Some [(ustr ''error'', PyStr (ustr ''Content is empty''))])\<rparr>))
           = Bound (Some [(ustr ''error'', PyStr (ustr ''Content is empty''))]) \<and>
         analyse_content (state\<lparr>content := Bound (Some [])\<rparr>) =
           Inr (no_keys\<lparr>metadata :=
                  Bound (Some [(ustr ''error'', PyStr (ustr ''Content is empty''))])\<rparr>)"
proof -
  from assms(2) have "c = [] \<or> length (py_strip c) = 0"
    by (simp only: blank_iff)
  then show ?thesis
    using assms(1)
    by (simp add: analyse_content_def subscript_def apply_update_def write_channel_def)
qed

theorem analyse_content_blank_witness:
  "py_isspace 32 \<and>
   analyse_content (no_keys\<lparr>content := Bound (Some [32, 32, 32]),
                           metadata := Bound (Some [(ustr ''seen'', PyBool True)])\<rparr>)
     = Inr (no_keys\<lparr>metadata :=
              Bound (Some [(ustr ''error'', PyStr (ustr ''Content is empty''))])\<rparr>) \<and>
   analyse_content (no_keys\<lparr>content := Bound (Some [32, 32, 32]),
                           metadata := Bound (Some [(ustr ''seen'', PyBool True)])\<rparr>)
     = analyse_content ((no_keys\<lparr>content := Bound (Some [32, 32, 32]),
                           metadata := Bound (Some [(ustr ''seen'', PyBool True)])\<rparr>)
                         \<lparr>content := Bound (Some [])\<rparr>)"
proof -
  have sp: "\<forall>x\<in>set [32, 32, 32]. py_isspace x"
    by (simp add: py_isspace_def)
  show ?thesis
    using sp analyse_content_blank
      [of "no_keys\<lparr>content := Bound (Some [32, 32, 32]),
                   metadata := Bound (Some [(ustr ''seen'', PyBool True)])\<rparr>" "[32, 32, 32]", OF _ sp]
    by simp
qed

text \<open>
  C4. When the content holds at least one non-whitespace code point, the preprocessor
  returns normally, and the metadata it returns is the prior metadata overridden by
  exactly three entries: content_length is the length of the content, word_count is
  the number of whitespace-delimited tokens, and has_urls tells whether "http://" or
  "https://" occurs in the content as a contiguous run.
\<close>

theorem analyse_content_metadata:
  assumes "content state = Bound (Some c)" and "\<exists>x\<in>set c. \<not> py_isspace x"
  shows "\<exists>d. analyse_content state = Inr (no_keys\<lparr>metadata := Bound (Some d)\<rparr>) \<and>
             map_of d = map_of (prior_metadata state) ++
               [ustr ''content_length'' \<mapsto> PyInt (int (length c)),
                ustr ''word_count'' \<mapsto> PyInt (int (token_count c)),
                ustr ''has_urls'' \<mapsto>
                  PyBool ((\<exists>p q. c = p @ ustr ''http://'' @ q) \<or>
                          (\<exists>p q. c = p @ ustr ''https://'' @ q))]"
proof -
  let ?am = "[(ustr ''content_length'', PyInt (int (length c))),
              (ustr ''word_count'', PyInt (int (length (py_split c)))),
              (ustr ''has_urls'',
                 PyBool (list_ex (\<lambda>url. py_in url c) [ustr ''http://'', ustr ''https://'']))]"
  from assms(2) have nb: "\<not> (c = [] \<or> length (py_strip c) = 0)"
    by (simp only: blank_iff) simp
  have prior: "(case get_default (metadata state) None of
                  None \<Rightarrow> [] | Some d \<Rightarrow> if d = [] then [] else d) = prior_metadata state"
    by (simp add: get_default_def prior_metadata_def split: slot.splits option.splits)
  have run: "analyse_content state =
               Inr (no_keys\<lparr>metadata := Bound (Some (dict_merge (prior_metadata state) ?am))\<rparr>)"
    using assms(1) nb prior
    by (simp add: analyse_content_def subscript_def Let_def)
  have dist: "distinct (map fst ?am)"
    by simp
  have urls: "list_ex (\<lambda>url. py_in url c) [ustr ''http://'', ustr ''https://'']
                \<longleftrightarrow> (\<exists>p q. c = p @ ustr ''http://'' @ q) \<or> (\<exists>p q. c = p @ ustr ''https://'' @ q)"
    by (simp add: py_in_def sublist_def)
  have "map_of (dict_merge (prior_metadata state) ?am) = map_of (prior_metadata state) ++ map_of ?am"
    using dist by (rule map_of_dict_merge)
  also have "map_of ?am =
               [ustr ''content_length'' \<mapsto> PyInt (int (length c)),
                ustr ''word_count'' \<mapsto> PyInt (int (token_count c)),
                ustr ''has_urls'' \<mapsto>
                  PyBool ((\<exists>p q. c = p @ ustr ''http://'' @ q) \<or>
                          (\<exists>p q. c = p @ ustr ''https://'' @ q))]"
    unfolding urls word_count_tokens
    by (rule ext) simp
  finally show ?thesis using run by blast
qed

theorem analyse_content_metadata_witness:
  "(\<exists>x\<in>set [97, 32, 98]. \<not> py_isspace x) \<and>
   (\<exists>d. analyse_content (no_keys\<lparr>content := Bound (Some [97, 32, 98]),
                                  metadata := Bound (Some [(ustr ''seen'', PyBool True)])\<rparr>)
          = Inr (no_keys\<lparr>metadata := Bound (Some d)\<rparr>) \<and>
        map_of d (ustr ''seen'') = Some (PyBool True) \<and>
        map_of d (ustr ''content_length'') = Some (PyInt 3) \<and>
        map_of d (ustr ''word_count'') = Some (PyInt 2))"
proof -
  have ns: "\<exists>x\<in>set [97, 32, 98]. \<not> py_isspace x"
    by (simp add: py_isspace_def)
  have tc: "token_count [97, 32, 98] = 2"
    by (simp add: word_count_tokens [symmetric] py_split_def py_isspace_def)
  show ?thesis
    using ns tc analyse_content_metadata
      [of "no_keys\<lparr>content := Bound (Some [97, 32, 98]),
                   metadata := Bound (Some [(ustr ''seen'', PyBool True)])\<rparr>" "[97, 32, 98]", OF _ ns]
    by (auto simp add: prior_metadata_def)
qed

section \<open>Steps of the graph run\<close>

lemma node_lookup:
  "map_of (graph_nodes model) (ustr ''analyse_content'') = Some (plain analyse_content)"
  "map_of (graph_nodes model) (ustr ''classify_severity'') = Some (classify_severity model)"
  "map_of (graph_nodes model) (ustr ''approve'') = Some (plain (\<lambda>state. Inr (approve state)))"
  "map_of (graph_nodes model) (ustr ''flag'') = Some (plain (\<lambda>state. Inr (flag state)))"
  "map_of (graph_nodes model) (ustr ''reject'') = Some (plain (\<lambda>state. Inr (reject state)))"
  "map_of (graph_nodes model) (ustr ''escalate'') = Some (plain (\<lambda>state. Inr (escalate state)))"
  by (simp_all add: graph_nodes_def)

lemma run_from_analyse:
  "run_from (Suc n) model (ustr ''analyse_content'') w s tr =
     (case analyse_content s of
        Inl e \<Rightarrow> ((tr @ [Ran (ustr ''analyse_content'')], Inl e), w)
      | Inr u \<Rightarrow> run_from n model (ustr ''classify_severity'') w (apply_update s u)
                  (tr @ [Ran (ustr ''analyse_content'')]))"
  by (simp add: node_lookup plain_def END_def START_def graph_edges_def
        graph_conditional_edges_def split: sum.splits)

lemma run_from_classify:
  "run_from (Suc n) model (ustr ''classify_severity'') w s tr =
     (case classify_severity model w s of
        (Inl e, w') \<Rightarrow> ((tr @ [Ran (ustr ''classify_severity'')], Inl e), w')
      | (Inr u, w') \<Rightarrow>
          (case routing_decision (apply_update s u) of
             Inl e \<Rightarrow> ((tr @ [Ran (ustr ''classify_severity'')], Inl e), w')
           | Inr r \<Rightarrow>
               (case map_of path_map r of
                  None \<Rightarrow> ((tr @ [Ran (ustr ''classify_severity''), Routed r], Inl (KeyError r)), w')
                | Some nxt \<Rightarrow> run_from n model nxt w' (apply_update s u)
                    (tr @ [Ran (ustr ''classify_severity''), Routed r]))))"
  by (simp add: node_lookup END_def graph_conditional_edges_def
        split: sum.splits prod.splits option.splits)

lemma run_from_resolver_Suc:
  "run_from (Suc (Suc n)) model (ustr ''approve'') w s tr =
     ((tr @ [Ran (ustr ''approve'')], Inr (apply_update s (approve s))), w)"
  "run_from (Suc (Suc n)) model (ustr ''flag'') w s tr =
     ((tr @ [Ran (ustr ''flag'')], Inr (apply_update s (flag s))), w)"
  "run_from (Suc (Suc n)) model (ustr ''reject'') w s tr =
     ((tr @ [Ran (ustr ''reject'')], Inr (apply_update s (reject s))), w)"
  "run_from (Suc (Suc n)) model (ustr ''escalate'') w s tr =
     ((tr @ [Ran (ustr ''escalate'')], Inr (apply_update s (escalate s))), w)"
  by (simp_all add: node_lookup plain_def END_def START_def graph_edges_def
        graph_conditional_edges_def)

lemma analyse_submitted:
  "\<exists>d. analyse_content (submitted c) = Inr (no_keys\<lparr>metadata := Bound (Some d)\<rparr>)"
proof (cases "c = [] \<or> length (py_strip c) = 0")
  case True
  then have "analyse_content (submitted c) =
               Inr (no_keys\<lparr>metadata :=
                      Bound (Some [(ustr ''error'', PyStr (ustr ''Content is empty''))])\<rparr>)"
    by (simp add: analyse_content_def submitted_def subscript_def)
  then show ?thesis by blast
next
  case False
  then have "analyse_content (submitted c) =
               Inr (no_keys\<lparr>metadata := Bound (Some (dict_merge []
                      [(ustr ''content_length'', PyInt (int (length c))),
                       (ustr ''word_count'', PyInt (int (length (py_split c)))),
                       (ustr ''has_urls'',
                          PyBool (list_ex (\<lambda>url. py_in url c)
                                    [ustr ''http://'', ustr ''https://'']))]))\<rparr>)"
    by (simp add: analyse_content_def submitted_def subscript_def Let_def get_default_def
          no_keys_def)
  then show ?thesis by blast
qed

lemma analysed_eq:
  "analyse_content (submitted c) = Inr u \<Longrightarrow> apply_update (submitted c) u = analysed c"
  by (simp add: analysed_def)

lemma analysed_fields:
  "content (analysed c) = Bound (Some c)"
  "severity (analysed c) = Absent"
  "action (analysed c) = Absent"
  "explanation (analysed c) = Absent"
  using analyse_submitted [of c]
  by (auto simp add: analysed_def apply_update_def write_channel_def submitted_def no_keys_def)

lemma classify_analysed:
  "classify_severity model w (analysed c) =
     (case model w (Some c) (metadata_str (analysed c)) of
        (Inl e, w') \<Rightarrow> (Inl e, w')
      | (Inr (sev, expl), w') \<Rightarrow>
          if sev \<in> set severity_labels
          then (Inr (no_keys\<lparr>severity := Bound (Some sev), explanation := Bound (Some expl)\<rparr>), w')
          else (Inl (ValidationError sev), w'))"
  by (simp add: classify_severity_def subscript_def analysed_fields SeverityClassification_def
        split: prod.splits sum.splits)


lemma write_channel_Absent [simp]: "write_channel Absent x = x" "write_channel x Absent = x"
  by (simp_all add: write_channel_def split: slot.splits)

lemma write_channel_Bound [simp]: "write_channel x (Bound v) = Bound v"
  by (simp add: write_channel_def)

lemma apply_update_no_keys [simp]: "apply_update no_keys s = s"
  by (simp add: apply_update_def no_keys_def)

lemma builder_run_start:
  "builder_run model w (submitted c) =
     run_from recursion_limit model (ustr ''analyse_content'') w (submitted c) []"
  by (simp add: builder_run_def graph_edges_def START_def)

lemma recursion_limit_Suc: "recursion_limit = Suc (Suc (Suc (Suc 21)))"
  by (simp add: recursion_limit_def)

lemma builder_run_classify:
  "builder_run model w (submitted c) =
     run_from (Suc (Suc (Suc 21))) model (ustr ''classify_severity'') w (analysed c)
       [Ran (ustr ''analyse_content'')]"
proof -
  obtain d where u: "analyse_content (submitted c) = Inr (no_keys\<lparr>metadata := Bound (Some d)\<rparr>)"
    using analyse_submitted by blast
  show ?thesis
    unfolding builder_run_start recursion_limit_Suc run_from_analyse
    by (simp add: u analysed_eq [OF u])
qed

lemma builder_run_raise:
  assumes "model w (Some c) (metadata_str (analysed c)) = (Inl e, w1)"
  shows "builder_run model w (submitted c) =
           (([Ran (ustr ''analyse_content''), Ran (ustr ''classify_severity'')], Inl e), w1)"
  unfolding builder_run_classify run_from_classify classify_analysed
  by (simp add: assms)

lemma builder_run_invalid:
  assumes "model w (Some c) (metadata_str (analysed c)) = (Inr (sev, expl), w1)"
    and "sev \<notin> set severity_labels"
  shows "builder_run model w (submitted c) =
           (([Ran (ustr ''analyse_content''), Ran (ustr ''classify_severity'')],
             Inl (ValidationError sev)), w1)"
  unfolding builder_run_classify run_from_classify classify_analysed
  by (simp add: assms)

lemma builder_run_ok:
  assumes "model w (Some c) (metadata_str (analysed c)) = (Inr (sev, expl), w1)"
    and "(sev, act, h, t) \<in> set outcomes"
  shows "builder_run model w (submitted c) =
           (([Ran (ustr ''analyse_content''), Ran (ustr ''classify_severity''),
              Routed act, Ran act],
             Inr \<lparr>content = Bound (Some c), severity = Bound (Some sev),
                  action = Bound (Some act), explanation = Bound (Some (h @ expl @ t)),
                  metadata = metadata (analysed c)\<rparr>), w1)"
proof -
  from assms(2) have lab: "sev \<in> set severity_labels"
    by (auto simp add: outcomes_def severity_labels_def)
  let ?s2 = "apply_update (analysed c)
               (no_keys\<lparr>severity := Bound (Some sev), explanation := Bound (Some expl)\<rparr>)"
  have s2: "?s2 = \<lparr>content = Bound (Some c), severity = Bound (Some sev), action = Absent,
                    explanation = Bound (Some expl), metadata = metadata (analysed c)\<rparr>"
    by (simp add: apply_update_def analysed_fields no_keys_def)
  have route: "routing_decision ?s2 = Inr act" and path: "map_of path_map act = Some act"
    using assms(2) unfolding s2
    by (auto simp add: outcomes_def routing_decision_def subscript_def path_map_def)
  have step: "builder_run model w (submitted c) =
                run_from (Suc (Suc 21)) model act w1 ?s2
                  [Ran (ustr ''analyse_content''), Ran (ustr ''classify_severity''), Routed act]"
    unfolding builder_run_classify run_from_classify classify_analysed
    by (simp add: assms(1) lab route path del: run_from.simps)
  have fin:
    "apply_update ?s2 (approve ?s2) =
       \<lparr>content = Bound (Some c), severity = Bound (Some sev),
        action = Bound (Some (ustr ''approve'')),
        explanation = Bound (Some (approve_head @ expl)),
        metadata = metadata (analysed c)\<rparr>"
    "apply_update ?s2 (flag ?s2) =
       \<lparr>content = Bound (Some c), severity = Bound (Some sev),
        action = Bound (Some (ustr ''flag'')),
        explanation = Bound (Some (flag_head @ expl @ flag_tail)),
        metadata = metadata (analysed c)\<rparr>"
    "apply_update ?s2 (reject ?s2) =
       \<lparr>content = Bound (Some c), severity = Bound (Some sev),
        action = Bound (Some (ustr ''reject'')),
        explanation = Bound (Some (reject_head @ expl @ reject_tail)),
        metadata = metadata (analysed c)\<rparr>"
    "apply_update ?s2 (escalate ?s2) =
       \<lparr>content = Bound (Some c), severity = Bound (Some sev),
        action = Bound (Some (ustr ''escalate'')),
        explanation = Bound (Some (escalate_head @ expl @ escalate_tail)),
        metadata = metadata (analysed c)\<rparr>"
    unfolding s2
    by (simp_all add: apply_update_def approve_def flag_def reject_def escalate_def
          get_default_def fmt_def no_keys_def)
  from assms(2) consider
      "act = ustr ''approve''" "h = approve_head" "t = []"
    | "act = ustr ''flag''" "h = flag_head" "t = flag_tail"
    | "act = ustr ''reject''" "h = reject_head" "t = reject_tail"
    | "act = ustr ''escalate''" "h = escalate_head" "t = escalate_tail"
    by (auto simp add: outcomes_def)
  then show ?thesis
  proof cases
    case 1
    show ?thesis
      unfolding step 1 run_from_resolver_Suc fin [unfolded 1] by simp
  next
    case 2
    show ?thesis
      unfolding step 2 run_from_resolver_Suc fin [unfolded 2] by simp
  next
    case 3
    show ?thesis
      unfolding step 3 run_from_resolver_Suc fin [unfolded 3] by simp
  next
    case 4
    show ?thesis
      unfolding step 4 run_from_resolver_Suc fin [unfolded 4] by simp
  qed
qed

lemma suffix_last: "suffix r m \<Longrightarrow> r \<noteq> [] \<Longrightarrow> last m = last r"
  by (auto simp add: suffix_def)

lemma classify_twice_differs:
  "fst (classify_severity alternating 0 (submitted c)) \<noteq>
   fst (classify_severity alternating (snd (classify_severity alternating 0 (submitted c)))
          (submitted c))"
  by (simp add: classify_severity_def subscript_def submitted_def alternating_def
        SeverityClassification_def severity_labels_def no_keys_def)

lemma outcomes_labels: "map fst outcomes = severity_labels"
  by (simp add: outcomes_def severity_labels_def)

lemma label_row:
  assumes "sev \<in> set severity_labels"
  obtains act h t where "(sev, act, h, t) \<in> set outcomes"
  using assms unfolding outcomes_labels [symmetric] by auto

lemma row_action:
  "(sev, act, h, t) \<in> set outcomes \<Longrightarrow>
     act \<in> set [ustr ''approve'', ustr ''flag'', ustr ''reject'', ustr ''escalate'']"
  by (auto simp add: outcomes_def)

lemma extend_fields:
  "content (ModerationState.extend r (run_result.fields x)) = content r"
  "severity (ModerationState.extend r (run_result.fields x)) = severity r"
  "action (ModerationState.extend r (run_result.fields x)) = action r"
  "explanation (ModerationState.extend r (run_result.fields x)) = explanation r"
  "metadata (ModerationState.extend r (run_result.fields x)) = metadata r"
  "error (ModerationState.extend r (run_result.fields x)) = x"
  by (simp_all add: ModerationState.defs run_result.defs)

lemma run_moderation_raise:
  assumes "builder_run model w (submitted c) = ((tr, Inl e), w1)"
  shows "run_moderation str_e model w c =
           (ModerationState.extend no_keys (run_result.fields (Bound (Some (str_e e)))), w1)"
  using assms by (simp add: run_moderation_def builder_invoke_def submitted_def)

lemma run_moderation_return:
  assumes "builder_run model w (submitted c) = ((tr, Inr st), w1)"
  shows "run_moderation str_e model w c =
           (ModerationState.extend st (run_result.fields Absent), w1)"
  using assms by (simp add: run_moderation_def builder_invoke_def submitted_def)

lemma analyse_content_update:
  assumes "analyse_content s = Inr u"
  shows "content u = Absent \<and> severity u = Absent \<and> action u = Absent \<and> explanation u = Absent"
  using assms
  by (auto simp add: analyse_content_def subscript_def no_keys_def Let_def
        split: slot.splits option.splits if_splits)

lemma classify_severity_update:
  assumes "classify_severity model w s = (Inr u, w')"
  shows "content u = Absent \<and> action u = Absent \<and> metadata u = Absent"
  using assms
  by (auto simp add: classify_severity_def subscript_def no_keys_def SeverityClassification_def
        split: slot.splits sum.splits prod.splits if_splits)

lemma apply_update_frame:
  "content u = Absent \<Longrightarrow> content (apply_update s u) = content s"
  "severity u = Absent \<Longrightarrow> severity (apply_update s u) = severity s"
  "action u = Absent \<Longrightarrow> action (apply_update s u) = action s"
  "explanation u = Absent \<Longrightarrow> explanation (apply_update s u) = explanation s"
  "metadata u = Absent \<Longrightarrow> metadata (apply_update s u) = metadata s"
  by (simp_all add: apply_update_def)

lemma builder_run_return:
  assumes "builder_run model w (submitted c) = ((tr, Inr st), w')"
  shows "content st = Bound (Some c) \<and> metadata st = metadata (analysed c)"
proof -
  obtain r w1 where m: "model w (Some c) (metadata_str (analysed c)) = (r, w1)"
    by (cases "model w (Some c) (metadata_str (analysed c))")
  show ?thesis
  proof (cases r)
    case (Inl e)
    from builder_run_raise [where model = model and w = w and c = c, OF m [unfolded Inl]] assms
    show ?thesis by simp
  next
    case (Inr p)
    obtain sev expl where p: "p = (sev, expl)" by (cases p)
    note m' = m [unfolded Inr p]
    show ?thesis
    proof (cases "sev \<in> set severity_labels")
      case False
      from builder_run_invalid [where model = model and w = w and c = c, OF m' False] assms
      show ?thesis by simp
    next
      case True
      then obtain act h t where row: "(sev, act, h, t) \<in> set outcomes"
        by (rule label_row)
      from builder_run_ok [where model = model and w = w and c = c, OF m' row] assms
      show ?thesis by auto
    qed
  qed
qed

section \<open>The action nodes\<close>

text \<open>
  C5. On every state each action node sets action to its own name. When the state
  holds the classifier's rationale \<open>r\<close>, the explanation becomes the node's fixed text
  with \<open>r\<close> embedded unchanged: for approve the fixed preamble followed by \<open>r\<close>; for
  flag, reject and escalate the fixed preamble, then \<open>r\<close>, then fixed guidance. The
  fixed text is written out as the source has it. On every state the explanation left
  by an action node is a non-empty string.
\<close>

theorem resolvers_action_and_explanation:
  "action (apply_update s (approve s)) = Bound (Some (ustr ''approve'')) \<and>
   action (apply_update s (flag s)) = Bound (Some (ustr ''flag'')) \<and>
   action (apply_update s (reject s)) = Bound (Some (ustr ''reject'')) \<and>
   action (apply_update s (escalate s)) = Bound (Some (ustr ''escalate'')) \<and>
   (explanation s = Bound (Some r) \<longrightarrow>
      explanation (apply_update s (approve s)) =
        Bound (Some (9989 # ustr '' Your content has been approved and is safe to publish. No changes needed.''
          @ [10, 10] @ ustr ''Analysis: '' @ r)) \<and>
      explanation (apply_update s (flag s)) =
        Bound (Some ([9888, 65039] @ ustr '' Your content was classified as questionable.''
          @ [10, 10] @ ustr ''Reason: '' @ r @ [10, 10]
          @ ustr ''Please review and revise your content to make it more appropriate before resubmitting.'')) \<and>
      explanation (apply_update s (reject s)) =
        Bound (Some (10060 # ustr '' Your content was classified as inappropriate.''
          @ [10, 10] @ ustr ''Reason: '' @ r @ [10, 10]
          @ ustr ''It contains content that violates our guidelines and cannot be published. Please revise your content to make it more appropriate before resubmitting.'')) \<and>
      explanation (apply_update s (escalate s)) =
        Bound (Some (128680 # ustr '' Your content was classified as harmful.''
          @ [10, 10] @ ustr ''Reason: '' @ r @ [10, 10]
          @ ustr ''This content contains material that is dangerous, illegal, or severely violates our guidelines. This submission has been escalated for review. Please revise your content to remove any harmful material. If you believe this is an error, please contact support.''))) \<and>
   (\<exists>m. explanation (apply_update s (approve s)) = Bound (Some m) \<and> m \<noteq> []) \<and>
   (\<exists>m. explanation (apply_update s (flag s)) = Bound (Some m) \<and> m \<noteq> []) \<and>
   (\<exists>m. explanation (apply_update s (reject s)) = Bound (Some m) \<and> m \<noteq> []) \<and>
   (\<exists>m. explanation (apply_update s (escalate s)) = Bound (Some m) \<and> m \<noteq> [])"
  by (simp add: apply_update_def approve_def flag_def reject_def escalate_def
        get_default_def fmt_def no_keys_def approve_head_def flag_head_def flag_tail_def
        reject_head_def reject_tail_def escalate_head_def escalate_tail_def)

theorem resolvers_action_and_explanation_witness:
  "explanation (apply_update
       (no_keys\<lparr>severity := Bound (Some (ustr ''questionable'')),
                explanation := Bound (Some (ustr ''mild swearing''))\<rparr>)
       (flag (no_keys\<lparr>severity := Bound (Some (ustr ''questionable'')),
                      explanation := Bound (Some (ustr ''mild swearing''))\<rparr>)))
     = Bound (Some ([9888, 65039] @ ustr '' Your content was classified as questionable.''
          @ [10, 10] @ ustr ''Reason: '' @ ustr ''mild swearing'' @ [10, 10]
          @ ustr ''Please review and revise your content to make it more appropriate before resubmitting.'')) \<and>
   action (apply_update
       (no_keys\<lparr>severity := Bound (Some (ustr ''questionable'')),
                explanation := Bound (Some (ustr ''mild swearing''))\<rparr>)
       (flag (no_keys\<lparr>severity := Bound (Some (ustr ''questionable'')),
                      explanation := Bound (Some (ustr ''mild swearing''))\<rparr>)))
     = Bound (Some (ustr ''flag''))"
  using resolvers_action_and_explanation
    [of "no_keys\<lparr>severity := Bound (Some (ustr ''questionable'')),
                  explanation := Bound (Some (ustr ''mild swearing''))\<rparr>" "ustr ''mild swearing''"]
  by simp

text \<open>
  The explanation is not always a preamble followed by the rationale: the explanation
  that flag composes from the rationale "mild swearing" does not end with it.
\<close>

theorem flag_explanation_counterexample:
  "explanation (apply_update
       (no_keys\<lparr>severity := Bound (Some (ustr ''questionable'')),
                explanation := Bound (Some (ustr ''mild swearing''))\<rparr>)
       (flag (no_keys\<lparr>severity := Bound (Some (ustr ''questionable'')),
                      explanation := Bound (Some (ustr ''mild swearing''))\<rparr>)))
     = Bound (Some (flag_head @ ustr ''mild swearing'' @ flag_tail)) \<and>
   \<not> suffix (ustr ''mild swearing'') (flag_head @ ustr ''mild swearing'' @ flag_tail)"
proof -
  have l1: "last (flag_head @ ustr ''mild swearing'' @ flag_tail) = 46"
    by (simp add: flag_tail_def ustr_def)
  have l2: "last (ustr ''mild swearing'') = 103"
    by (simp add: ustr_def)
  have ns: "\<not> suffix (ustr ''mild swearing'') (flag_head @ ustr ''mild swearing'' @ flag_tail)"
  proof
    assume "suffix (ustr ''mild swearing'') (flag_head @ ustr ''mild swearing'' @ flag_tail)"
    then have "last (flag_head @ ustr ''mild swearing'' @ flag_tail) = last (ustr ''mild swearing'')"
      by (rule suffix_last) simp
    with l1 l2 show False by simp
  qed
  then show ?thesis
    by (simp add: apply_update_def flag_def get_default_def fmt_def no_keys_def)
qed

text \<open>
  On a state without the key explanation each action node embeds the empty string as
  rationale, and as nodes of the graph the four functions return a result on every
  state and leave the outside world as it was.
\<close>

lemma resolver_missing_key:
  assumes "explanation s = Absent"
  shows "approve s = no_keys\<lparr>action := Bound (Some (ustr ''approve'')),
                             explanation := Bound (Some (approve_head @ []))\<rparr> \<and>
         flag s = no_keys\<lparr>action := Bound (Some (ustr ''flag'')),
                          explanation := Bound (Some (flag_head @ [] @ flag_tail))\<rparr> \<and>
         reject s = no_keys\<lparr>action := Bound (Some (ustr ''reject'')),
                            explanation := Bound (Some (reject_head @ [] @ reject_tail))\<rparr> \<and>
         escalate s = no_keys\<lparr>action := Bound (Some (ustr ''escalate'')),
                              explanation :=
                                Bound (Some (escalate_head @ [] @ escalate_tail))\<rparr> \<and>
         (\<exists>f. map_of (graph_nodes model) (ustr ''approve'') = Some f \<and>
              (\<forall>s'. f w s' = (Inr (approve s'), w))) \<and>
         (\<exists>f. map_of (graph_nodes model) (ustr ''flag'') = Some f \<and>
              (\<forall>s'. f w s' = (Inr (flag s'), w))) \<and>
         (\<exists>f. map_of (graph_nodes model) (ustr ''reject'') = Some f \<and>
              (\<forall>s'. f w s' = (Inr (reject s'), w))) \<and>
         (\<exists>f. map_of (graph_nodes model) (ustr ''escalate'') = Some f \<and>
              (\<forall>s'. f w s' = (Inr (escalate s'), w)))"
  using assms
  by (simp add: approve_def flag_def reject_def escalate_def get_default_def fmt_def
        node_lookup plain_def)

text \<open>
  C9. An absent explanation is a missing key or a key that holds \<^verbatim>\<open>None\<close>. On the
  state whose explanation is \<^verbatim>\<open>None\<close> every action node returns normally, but the
  rationale it embeds is the text "None", not the empty string: the default of
  \<^verbatim>\<open>state.get("explanation", "")\<close> is taken for a missing key only, as on the last
  state below.
\<close>

theorem resolver_none_explanation:
  "explanation (apply_update
       (no_keys\<lparr>content := Bound (Some (ustr ''hello'')),
                severity := Bound (Some (ustr ''safe'')), explanation := Bound None\<rparr>)
       (approve (no_keys\<lparr>content := Bound (Some (ustr ''hello'')),
                         severity := Bound (Some (ustr ''safe'')), explanation := Bound None\<rparr>)))
     = Bound (Some (approve_head @ ustr ''None'')) \<and>
   approve_head @ ustr ''None'' \<noteq> approve_head @ [] \<and>
   flag (no_keys\<lparr>explanation := Bound None\<rparr>) =
     no_keys\<lparr>action := Bound (Some (ustr ''flag'')),
             explanation := Bound (Some (flag_head @ ustr ''None'' @ flag_tail))\<rparr> \<and>
   reject (no_keys\<lparr>explanation := Bound None\<rparr>) =
     no_keys\<lparr>action := Bound (Some (ustr ''reject'')),
             explanation := Bound (Some (reject_head @ ustr ''None'' @ reject_tail))\<rparr> \<and>
   escalate (no_keys\<lparr>explanation := Bound None\<rparr>) =
     no_keys\<lparr>action := Bound (Some (ustr ''escalate'')),
             explanation := Bound (Some (escalate_head @ ustr ''None'' @ escalate_tail))\<rparr> \<and>
   approve (no_keys\<lparr>content := Bound (Some (ustr ''hello'')),
                    severity := Bound (Some (ustr ''safe''))\<rparr>) =
     no_keys\<lparr>action := Bound (Some (ustr ''approve'')),
             explanation := Bound (Some (approve_head @ []))\<rparr>"
  by (simp add: apply_update_def approve_def flag_def reject_def escalate_def
        get_default_def fmt_def no_keys_def)

text \<open>
  C8. Each action node, run on the same state, gives the same output whatever the
  state of the outside world, and leaves the outside world unchanged; so a second run
  on the same state, started where the first one ended, gives the identical output.
  (The classifier node has no such property: \<open>classify_twice_differs\<close>.)
\<close>

theorem resolver_twice_same:
  assumes "name \<in> set [ustr ''approve'', ustr ''flag'', ustr ''reject'', ustr ''escalate'']"
  shows "\<exists>f u. map_of (graph_nodes model) name = Some f \<and>
           (\<forall>w. f w s = (Inr u, w)) \<and>
           (\<forall>w. case f w s of (r1, w1) \<Rightarrow> case f w1 s of (r2, w2) \<Rightarrow> r1 = r2 \<and> w2 = w)"
  using assms by (auto simp add: node_lookup plain_def)

theorem resolver_twice_same_witness:
  "\<exists>f u. map_of (graph_nodes alternating) (ustr ''reject'') = Some f \<and>
      f (0::nat) (no_keys\<lparr>explanation := Bound (Some (ustr ''spam''))\<rparr>) = (Inr u, 0) \<and>
      f 1 (no_keys\<lparr>explanation := Bound (Some (ustr ''spam''))\<rparr>) = (Inr u, 1)"
  using resolver_twice_same
    [of "ustr ''reject''" alternating "no_keys\<lparr>explanation := Bound (Some (ustr ''spam''))\<rparr>"]
  by auto

section \<open>The pipeline\<close>

text \<open>
  C6. One invocation on a content string runs the preprocessor, then the classifier.
  When the language model answers with one of the four labels the run goes on with the
  router and exactly the one action node the router names, and returns. When the
  model raises, or answers with another label, the run ends after the classifier with
  that exception and no action node runs. In every run no stage occurs twice, at most
  one action node runs, and it runs after the classifier, on a state that holds the
  severity.
\<close>

theorem pipeline_stage_order:
  "\<exists>tr res w'. builder_run model w (submitted c) = ((tr, res), w') \<and> distinct tr \<and>
     ((tr = [Ran (ustr ''analyse_content''), Ran (ustr ''classify_severity'')] \<and>
       (\<exists>e. res = Inl e)) \<or>
      (\<exists>act st sev.
         act \<in> set [ustr ''approve'', ustr ''flag'', ustr ''reject'', ustr ''escalate''] \<and>
         tr = [Ran (ustr ''analyse_content''), Ran (ustr ''classify_severity''),
               Routed act, Ran act] \<and>
         res = Inr st \<and> severity st = Bound (Some sev) \<and> action st = Bound (Some act))) \<and>
     (\<forall>sev expl w1 act h t.
        model w (Some c) (metadata_str (analysed c)) = (Inr (sev, expl), w1) \<and>
        (sev, act, h, t) \<in> set outcomes \<longrightarrow>
          tr = [Ran (ustr ''analyse_content''), Ran (ustr ''classify_severity''),
                Routed act, Ran act] \<and>
          (\<exists>st. res = Inr st) \<and> w' = w1) \<and>
     (\<forall>e w1.
        model w (Some c) (metadata_str (analysed c)) = (Inl e, w1) \<longrightarrow>
          tr = [Ran (ustr ''analyse_content''), Ran (ustr ''classify_severity'')] \<and>
          res = Inl e \<and> w' = w1) \<and>
     (\<forall>sev expl w1.
        model w (Some c) (metadata_str (analysed c)) = (Inr (sev, expl), w1) \<and>
        sev \<notin> set severity_labels \<longrightarrow>
          tr = [Ran (ustr ''analyse_content''), Ran (ustr ''classify_severity'')] \<and>
          res = Inl (ValidationError sev) \<and> w' = w1)"
proof -
  obtain r w1 where m: "model w (Some c) (metadata_str (analysed c)) = (r, w1)"
    by (cases "model w (Some c) (metadata_str (analysed c))")
  show ?thesis
  proof (cases r)
    case (Inl e)
    from builder_run_raise [where model = model and w = w and c = c, OF m [unfolded Inl]] m Inl
    show ?thesis
      by simp
  next
    case (Inr p)
    obtain sev expl where p: "p = (sev, expl)" by (cases p)
    note m' = m [unfolded Inr p]
    show ?thesis
    proof (cases "sev \<in> set severity_labels")
      case False
      then have no_row: "\<And>act h t. (sev, act, h, t) \<notin> set outcomes"
        unfolding outcomes_labels [symmetric] by force
      from builder_run_invalid [where model = model and w = w and c = c, OF m' False] m' no_row
      show ?thesis
        by simp
    next
      case True
      then obtain act h t where row: "(sev, act, h, t) \<in> set outcomes"
        by (rule label_row)
      have uniq: "\<And>act' h' t'. (sev, act', h', t') \<in> set outcomes \<Longrightarrow> act' = act"
        using row by (auto simp add: outcomes_def)
      have acts: "act \<in> set [ustr ''approve'', ustr ''flag'', ustr ''reject'', ustr ''escalate'']"
        using row by (rule row_action)
      have d: "distinct [Ran (ustr ''analyse_content''), Ran (ustr ''classify_severity''),
                         Routed act, Ran act]"
        using acts by auto
      from builder_run_ok [where model = model and w = w and c = c, OF m' row] m' acts d uniq True
      show ?thesis
        by auto
    qed
  qed
qed

theorem pipeline_stage_order_witness:
  "fst (fst (builder_run (answering (ustr ''harmful'') (ustr ''threat'')) 0
               (submitted (ustr ''pay up or else'')))) =
     [Ran (ustr ''analyse_content''), Ran (ustr ''classify_severity''),
      Routed (ustr ''escalate''), Ran (ustr ''escalate'')] \<and>
   fst (builder_run (raising (CapabilityError (ustr ''timed out''))) 0
          (submitted (ustr ''pay up or else''))) =
     ([Ran (ustr ''analyse_content''), Ran (ustr ''classify_severity'')],
      Inl (CapabilityError (ustr ''timed out''))) \<and>
   fst (builder_run (answering (ustr ''spicy'') (ustr ''why'')) 0
          (submitted (ustr ''pay up or else''))) =
     ([Ran (ustr ''analyse_content''), Ran (ustr ''classify_severity'')],
      Inl (ValidationError (ustr ''spicy'')))"
proof -
  let ?m = "answering (ustr ''harmful'') (ustr ''threat'')"
  let ?f = "raising (CapabilityError (ustr ''timed out''))"
  let ?b = "answering (ustr ''spicy'') (ustr ''why'')"
  let ?c = "ustr ''pay up or else''"
  have hyp: "?m 0 (Some ?c) (metadata_str (analysed ?c)) =
               (Inr (ustr ''harmful'', ustr ''threat''), Suc 0)"
    by (simp add: answering_def)
  have row: "(ustr ''harmful'', ustr ''escalate'', escalate_head, escalate_tail) \<in> set outcomes"
    by (simp add: outcomes_def)
  from pipeline_stage_order [of ?m 0 ?c] obtain tr res w' where
    run: "builder_run ?m 0 (submitted ?c) = ((tr, res), w')" and
    ok: "\<forall>sev expl w1 act h t.
           ?m 0 (Some ?c) (metadata_str (analysed ?c)) = (Inr (sev, expl), w1) \<and>
           (sev, act, h, t) \<in> set outcomes \<longrightarrow>
             tr = [Ran (ustr ''analyse_content''), Ran (ustr ''classify_severity''),
                   Routed act, Ran act] \<and>
             (\<exists>st. res = Inr st) \<and> w' = w1"
    by blast
  from ok hyp row have "tr = [Ran (ustr ''analyse_content''), Ran (ustr ''classify_severity''),
                              Routed (ustr ''escalate''), Ran (ustr ''escalate'')]"
    by blast
  with run have p1: "fst (fst (builder_run ?m 0 (submitted ?c))) =
     [Ran (ustr ''analyse_content''), Ran (ustr ''classify_severity''),
      Routed (ustr ''escalate''), Ran (ustr ''escalate'')]"
    by simp
  have hf: "?f 0 (Some ?c) (metadata_str (analysed ?c)) =
              (Inl (CapabilityError (ustr ''timed out'')), Suc 0)"
    by (simp add: raising_def)
  from pipeline_stage_order [of ?f 0 ?c] obtain tr2 res2 w2 where
    run2: "builder_run ?f 0 (submitted ?c) = ((tr2, res2), w2)" and
    ko: "\<forall>e w1. ?f 0 (Some ?c) (metadata_str (analysed ?c)) = (Inl e, w1) \<longrightarrow>
           tr2 = [Ran (ustr ''analyse_content''), Ran (ustr ''classify_severity'')] \<and>
           res2 = Inl e \<and> w2 = w1"
    by blast
  from ko hf have "tr2 = [Ran (ustr ''analyse_content''), Ran (ustr ''classify_severity'')] \<and>
                   res2 = Inl (CapabilityError (ustr ''timed out''))"
    by blast
  with run2 have p2: "fst (builder_run ?f 0 (submitted ?c)) =
     ([Ran (ustr ''analyse_content''), Ran (ustr ''classify_severity'')],
      Inl (CapabilityError (ustr ''timed out'')))"
    by simp
  have hb: "?b 0 (Some ?c) (metadata_str (analysed ?c)) =
              (Inr (ustr ''spicy'', ustr ''why''), Suc 0)"
    by (simp add: answering_def)
  have bad: "ustr ''spicy'' \<notin> set severity_labels"
    by (simp add: severity_labels_def)
  from pipeline_stage_order [of ?b 0 ?c] obtain tr3 res3 w3 where
    run3: "builder_run ?b 0 (submitted ?c) = ((tr3, res3), w3)" and
    inv: "\<forall>sev expl w1. ?b 0 (Some ?c) (metadata_str (analysed ?c)) = (Inr (sev, expl), w1) \<and>
           sev \<notin> set severity_labels \<longrightarrow>
           tr3 = [Ran (ustr ''analyse_content''), Ran (ustr ''classify_severity'')] \<and>
           res3 = Inl (ValidationError sev) \<and> w3 = w1"
    by blast
  from inv hb bad have "tr3 = [Ran (ustr ''analyse_content''), Ran (ustr ''classify_severity'')] \<and>
                   res3 = Inl (ValidationError (ustr ''spicy''))"
    by blast
  with run3 have p3: "fst (builder_run ?b 0 (submitted ?c)) =
     ([Ran (ustr ''analyse_content''), Ran (ustr ''classify_severity'')],
      Inl (ValidationError (ustr ''spicy'')))"
    by simp
  from p1 p2 p3 show ?thesis by blast
qed

text \<open>
  A run in which no action node runs: the language model raises a timeout on the
  content "hello", and the trace ends with the classifier.
\<close>

theorem raising_run_counterexample:
  "fst (builder_run (raising (CapabilityError (ustr ''timed out''))) 0
          (submitted (ustr ''hello''))) =
     ([Ran (ustr ''analyse_content''), Ran (ustr ''classify_severity'')],
      Inl (CapabilityError (ustr ''timed out'')))"
proof -
  have "raising (CapabilityError (ustr ''timed out'')) 0 (Some (ustr ''hello''))
          (metadata_str (analysed (ustr ''hello'')))
        = (Inl (CapabilityError (ustr ''timed out'')), Suc 0)"
    by (simp add: raising_def)
  from builder_run_raise [where model = "raising (CapabilityError (ustr ''timed out''))"
      and w = 0 and c = "ustr ''hello''", OF this]
  show ?thesis by simp
qed

text \<open>
  C7. When the language model raises, or answers with a severity outside the four
  labels, \<open>run_moderation\<close> returns a dictionary that holds the text of the exception
  under error and none of the keys of the state, so neither severity nor action. When
  the model answers with one of the four labels the result has no error key and holds
  the severity, the action of the same row, and the explanation of that action's node
  around the model's rationale.
\<close>

theorem run_moderation_result:
  "(model w (Some c) (metadata_str (analysed c)) = (Inl e, w1) \<longrightarrow>
      (\<exists>r. run_moderation str_e model w c = (r, w1) \<and>
           error r = Bound (Some (str_e e)) \<and> severity r = Absent \<and> action r = Absent \<and>
           explanation r = Absent \<and> content r = Absent \<and> metadata r = Absent)) \<and>
   (model w (Some c) (metadata_str (analysed c)) = (Inr (sev, expl), w1) \<and>
    sev \<notin> set severity_labels \<longrightarrow>
      (\<exists>r. run_moderation str_e model w c = (r, w1) \<and>
           error r = Bound (Some (str_e (ValidationError sev))) \<and>
           severity r = Absent \<and> action r = Absent \<and>
           explanation r = Absent \<and> content r = Absent \<and> metadata r = Absent)) \<and>
   (model w (Some c) (metadata_str (analysed c)) = (Inr (sev, expl), w1) \<and>
    (sev, act, h, t) \<in> set outcomes \<longrightarrow>
      (\<exists>r. run_moderation str_e model w c = (r, w1) \<and>
           error r = Absent \<and> severity r = Bound (Some sev) \<and> action r = Bound (Some act) \<and>
           explanation r = Bound (Some (h @ expl @ t)) \<and>
           content r = Bound (Some c) \<and> metadata r = metadata (analysed c)))"
proof (intro conjI impI)
  assume m: "model w (Some c) (metadata_str (analysed c)) = (Inl e, w1)"
  have "run_moderation str_e model w c =
          (ModerationState.extend no_keys (run_result.fields (Bound (Some (str_e e)))), w1)"
    by (rule run_moderation_raise,
        rule builder_run_raise [where model = model and w = w and c = c, OF m])
  then show "\<exists>r. run_moderation str_e model w c = (r, w1) \<and>
           error r = Bound (Some (str_e e)) \<and> severity r = Absent \<and> action r = Absent \<and>
           explanation r = Absent \<and> content r = Absent \<and> metadata r = Absent"
    by (simp add: extend_fields no_keys_def)
next
  assume a: "model w (Some c) (metadata_str (analysed c)) = (Inr (sev, expl), w1) \<and>
             sev \<notin> set severity_labels"
  then have m: "model w (Some c) (metadata_str (analysed c)) = (Inr (sev, expl), w1)"
    and bad: "sev \<notin> set severity_labels" by simp_all
  have "run_moderation str_e model w c =
          (ModerationState.extend no_keys
             (run_result.fields (Bound (Some (str_e (ValidationError sev))))), w1)"
    by (rule run_moderation_raise,
        rule builder_run_invalid [where model = model and w = w and c = c, OF m bad])
  then show "\<exists>r. run_moderation str_e model w c = (r, w1) \<and>
           error r = Bound (Some (str_e (ValidationError sev))) \<and>
           severity r = Absent \<and> action r = Absent \<and>
           explanation r = Absent \<and> content r = Absent \<and> metadata r = Absent"
    by (simp add: extend_fields no_keys_def)
next
  assume a: "model w (Some c) (metadata_str (analysed c)) = (Inr (sev, expl), w1) \<and>
             (sev, act, h, t) \<in> set outcomes"
  then have m: "model w (Some c) (metadata_str (analysed c)) = (Inr (sev, expl), w1)"
    and row: "(sev, act, h, t) \<in> set outcomes" by simp_all
  have "run_moderation str_e model w c =
          (ModerationState.extend
             \<lparr>content = Bound (Some c), severity = Bound (Some sev),
              action = Bound (Some act), explanation = Bound (Some (h @ expl @ t)),
              metadata = metadata (analysed c)\<rparr> (run_result.fields Absent), w1)"
    by (rule run_moderation_return,
        rule builder_run_ok [where model = model and w = w and c = c, OF m row])
  then show "\<exists>r. run_moderation str_e model w c = (r, w1) \<and>
           error r = Absent \<and> severity r = Bound (Some sev) \<and> action r = Bound (Some act) \<and>
           explanation r = Bound (Some (h @ expl @ t)) \<and>
           content r = Bound (Some c) \<and> metadata r = metadata (analysed c)"
    by (simp add: extend_fields)
qed

theorem run_moderation_result_witness:
  "(\<exists>r. run_moderation exn_text (raising (CapabilityError (ustr ''timed out''))) 0
           (ustr ''hello'') = (r, Suc 0) \<and>
        error r = Bound (Some (ustr ''timed out'')) \<and> severity r = Absent \<and>
        action r = Absent) \<and>
   (\<exists>r. run_moderation exn_text (answering (ustr ''spicy'') (ustr ''why'')) 0
           (ustr ''hello'') = (r, Suc 0) \<and>
        error r = Bound (Some (ustr ''validation error: spicy'')) \<and> severity r = Absent \<and>
        action r = Absent) \<and>
   (\<exists>r. run_moderation exn_text (answering (ustr ''safe'') (ustr ''fine'')) 0
           (ustr ''hello'') = (r, Suc 0) \<and>
        error r = Absent \<and> severity r = Bound (Some (ustr ''safe'')) \<and>
        action r = Bound (Some (ustr ''approve'')) \<and>
        explanation r = Bound (Some (approve_head @ ustr ''fine'')))"
proof -
  let ?c = "ustr ''hello''"
  let ?E = "CapabilityError (ustr ''timed out'')"
  have h1: "raising ?E 0 (Some ?c) (metadata_str (analysed ?c)) = (Inl ?E, Suc 0)"
    by (simp add: raising_def)
  have h2: "answering (ustr ''spicy'') (ustr ''why'') 0 (Some ?c) (metadata_str (analysed ?c))
              = (Inr (ustr ''spicy'', ustr ''why''), Suc 0)"
    by (simp add: answering_def)
  have h3: "answering (ustr ''safe'') (ustr ''fine'') 0 (Some ?c) (metadata_str (analysed ?c))
              = (Inr (ustr ''safe'', ustr ''fine''), Suc 0)"
    by (simp add: answering_def)
  have bad: "ustr ''spicy'' \<notin> set severity_labels"
    by (simp add: severity_labels_def)
  have row: "(ustr ''safe'', ustr ''approve'', approve_head, []) \<in> set outcomes"
    by (simp add: outcomes_def)
  have sp: "exn_text (ValidationError (ustr ''spicy'')) = ustr ''validation error: spicy''"
    by (simp add: ustr_def)
  from h1 run_moderation_result
      [of "raising ?E" 0 ?c ?E "Suc 0" exn_text "[]" "[]" "[]" "[]" "[]"]
  have p1: "\<exists>r. run_moderation exn_text (raising ?E) 0 ?c = (r, Suc 0) \<and>
        error r = Bound (Some (ustr ''timed out'')) \<and> severity r = Absent \<and>
        action r = Absent"
    by auto
  from h2 bad run_moderation_result
      [of "answering (ustr ''spicy'') (ustr ''why'')" 0 ?c ?E "Suc 0" exn_text
          "ustr ''spicy''" "ustr ''why''" "[]" "[]" "[]"]
  have p2: "\<exists>r. run_moderation exn_text (answering (ustr ''spicy'') (ustr ''why'')) 0 ?c
                 = (r, Suc 0) \<and>
        error r = Bound (Some (ustr ''validation error: spicy'')) \<and> severity r = Absent \<and>
        action r = Absent"
    unfolding sp by auto
  from h3 row run_moderation_result
      [of "answering (ustr ''safe'') (ustr ''fine'')" 0 ?c ?E "Suc 0" exn_text
          "ustr ''safe''" "ustr ''fine''" "ustr ''approve''" approve_head "[]"]
  have p3: "\<exists>r. run_moderation exn_text (answering (ustr ''safe'') (ustr ''fine'')) 0 ?c
                 = (r, Suc 0) \<and>
        error r = Absent \<and> severity r = Bound (Some (ustr ''safe'')) \<and>
        action r = Bound (Some (ustr ''approve'')) \<and>
        explanation r = Bound (Some (approve_head @ ustr ''fine''))"
    by auto
  from p1 p2 p3 show ?thesis by blast
qed

text \<open>
  C10. Each stage returns only its own keys, and writing its result leaves every other
  key of the state as it was: the preprocessor returns metadata only, the classifier
  severity and explanation only, each action node action and explanation only. In the
  state a run returns, content is the submitted string and metadata is what the
  preprocessor left.
\<close>

theorem stages_frame:
  "(analyse_content s = Inr u \<longrightarrow>
      content u = Absent \<and> severity u = Absent \<and> action u = Absent \<and> explanation u = Absent \<and>
      content (apply_update s u) = content s \<and> severity (apply_update s u) = severity s \<and>
      action (apply_update s u) = action s \<and> explanation (apply_update s u) = explanation s) \<and>
   (classify_severity model w s = (Inr u', w') \<longrightarrow>
      content u' = Absent \<and> action u' = Absent \<and> metadata u' = Absent \<and>
      content (apply_update s u') = content s \<and> action (apply_update s u') = action s \<and>
      metadata (apply_update s u') = metadata s) \<and>
   list_all (\<lambda>f. content (f s) = Absent \<and> severity (f s) = Absent \<and> metadata (f s) = Absent \<and>
                 content (apply_update s (f s)) = content s \<and>
                 severity (apply_update s (f s)) = severity s \<and>
                 metadata (apply_update s (f s)) = metadata s)
     [approve, flag, reject, escalate] \<and>
   (builder_run model w (submitted c) = ((tr, Inr st), w'') \<longrightarrow>
      content st = Bound (Some c) \<and> metadata st = metadata (analysed c))"
proof (intro conjI impI)
  assume "analyse_content s = Inr u"
  then have "content u = Absent \<and> severity u = Absent \<and> action u = Absent \<and>
             explanation u = Absent"
    by (rule analyse_content_update)
  then show "content u = Absent" "severity u = Absent" "action u = Absent"
    "explanation u = Absent" "content (apply_update s u) = content s"
    "severity (apply_update s u) = severity s" "action (apply_update s u) = action s"
    "explanation (apply_update s u) = explanation s"
    by (simp_all add: apply_update_frame)
next
  assume "classify_severity model w s = (Inr u', w')"
  then have "content u' = Absent \<and> action u' = Absent \<and> metadata u' = Absent"
    by (rule classify_severity_update)
  then show "content u' = Absent" "action u' = Absent" "metadata u' = Absent"
    "content (apply_update s u') = content s" "action (apply_update s u') = action s"
    "metadata (apply_update s u') = metadata s"
    by (simp_all add: apply_update_frame)
next
  show "list_all (\<lambda>f. content (f s) = Absent \<and> severity (f s) = Absent \<and> metadata (f s) = Absent \<and>
                 content (apply_update s (f s)) = content s \<and>
                 severity (apply_update s (f s)) = severity s \<and>
                 metadata (apply_update s (f s)) = metadata s)
     [approve, flag, reject, escalate]"
    by (simp add: approve_def flag_def reject_def escalate_def no_keys_def apply_update_def)
next
  assume "builder_run model w (submitted c) = ((tr, Inr st), w'')"
  then have "content st = Bound (Some c) \<and> metadata st = metadata (analysed c)"
    by (rule builder_run_return)
  then show "content st = Bound (Some c)" "metadata st = metadata (analysed c)"
    by simp_all
qed

theorem stages_frame_witness:
  "(\<exists>u. analyse_content (submitted (ustr ''hello'')) = Inr u \<and>
        content (apply_update (submitted (ustr ''hello'')) u) = Bound (Some (ustr ''hello''))) \<and>
   (\<exists>u. classify_severity (answering (ustr ''safe'') (ustr ''fine'')) 0
           (submitted (ustr ''hello'')) = (Inr u, Suc 0) \<and>
        content (apply_update (submitted (ustr ''hello'')) u) = Bound (Some (ustr ''hello'')) \<and>
        metadata (apply_update (submitted (ustr ''hello'')) u) = Absent) \<and>
   (\<exists>tr st. builder_run (answering (ustr ''safe'') (ustr ''fine'')) 0
               (submitted (ustr ''hello'')) = ((tr, Inr st), Suc 0) \<and>
            content st = Bound (Some (ustr ''hello'')) \<and>
            metadata st = metadata (analysed (ustr ''hello'')))"
proof -
  let ?c = "ustr ''hello''"
  let ?m = "answering (ustr ''safe'') (ustr ''fine'')"
  obtain d where a: "analyse_content (submitted ?c) = Inr (no_keys\<lparr>metadata := Bound (Some d)\<rparr>)"
    using analyse_submitted by blast
  have k: "classify_severity ?m 0 (submitted ?c) =
             (Inr (no_keys\<lparr>severity := Bound (Some (ustr ''safe'')),
                           explanation := Bound (Some (ustr ''fine''))\<rparr>), Suc 0)"
    by (simp add: classify_severity_def subscript_def submitted_def answering_def
          SeverityClassification_def severity_labels_def)
  have h: "?m 0 (Some ?c) (metadata_str (analysed ?c)) = (Inr (ustr ''safe'', ustr ''fine''), Suc 0)"
    by (simp add: answering_def)
  have row: "(ustr ''safe'', ustr ''approve'', approve_head, []) \<in> set outcomes"
    by (simp add: outcomes_def)
  note run = builder_run_ok [where model = ?m and w = 0 and c = ?c, OF h row]
  have c0: "content (submitted ?c) = Bound (Some ?c)" "metadata (submitted ?c) = Absent"
    by (simp_all add: submitted_def no_keys_def)
  let ?u = "no_keys\<lparr>metadata := Bound (Some d)\<rparr>"
  let ?u' = "no_keys\<lparr>severity := Bound (Some (ustr ''safe'')),
                      explanation := Bound (Some (ustr ''fine''))\<rparr>"
  let ?tr = "[Ran (ustr ''analyse_content''), Ran (ustr ''classify_severity''),
              Routed (ustr ''approve''), Ran (ustr ''approve'')]"
  let ?st = "\<lparr>content = Bound (Some ?c), severity = Bound (Some (ustr ''safe'')),
              action = Bound (Some (ustr ''approve'')),
              explanation = Bound (Some (approve_head @ ustr ''fine'' @ [])),
              metadata = metadata (analysed ?c)\<rparr>"
  note inst = stages_frame [of "submitted ?c" ?u ?m 0 ?u' "Suc 0" ?c ?tr ?st "Suc 0"]
  from inst a have "content (apply_update (submitted ?c) ?u) = content (submitted ?c)"
    by blast
  with a c0 have p1: "\<exists>u. analyse_content (submitted ?c) = Inr u \<and>
                content (apply_update (submitted ?c) u) = Bound (Some ?c)"
    by auto
  from inst k have "content (apply_update (submitted ?c) ?u') = content (submitted ?c) \<and>
                    metadata (apply_update (submitted ?c) ?u') = metadata (submitted ?c)"
    by blast
  with k c0 have p2: "\<exists>u. classify_severity ?m 0 (submitted ?c) = (Inr u, Suc 0) \<and>
        content (apply_update (submitted ?c) u) = Bound (Some ?c) \<and>
        metadata (apply_update (submitted ?c) u) = Absent"
    by auto
  from inst run have "content ?st = Bound (Some ?c) \<and> metadata ?st = metadata (analysed ?c)"
    by blast
  with run have p3: "\<exists>tr st. builder_run ?m 0 (submitted ?c) = ((tr, Inr st), Suc 0) \<and>
            content st = Bound (Some ?c) \<and> metadata st = metadata (analysed ?c)"
    by blast
  from p1 p2 p3 show ?thesis by blast
qed

end
